theory Spec2Isabelle
  imports Main
begin

section \<open>Data model\<close>

text \<open>
  The module under study is \<^verbatim>\<open>yet_another_calendar/web/api/bulk/integration.py\<close>.
  Exceptions are values: \<open>HTTPException status_code detail\<close> is the FastAPI exception
  the module raises itself, \<open>ExceptionGroup\<close> is what \<^verbatim>\<open>asyncio.TaskGroup\<close> raises
  when a task of the group fails, and \<open>Exception\<close> stands for any other exception
  raised by a collaborator (an upstream view, the cache backend, the coder).
\<close>

datatype exn =
    HTTPException nat string
  | ExceptionGroup "exn list"
  | Exception string

datatype tzinfo = TzInfo string

text \<open>
  A timezone-aware \<^verbatim>\<open>datetime\<close>: the instant in seconds since the epoch and the zone
  it is expressed in.
\<close>

record datetime =
  timestamp :: int
  tzinfo :: tzinfo

text \<open>The Python values that are handed to \<^verbatim>\<open>icalendar\<close> as property values.\<close>

datatype pyvalue = PyNone | PyStr string | PyInt int | PyDatetime datetime

text \<open>
  The event schemas, with the fields that the module reads. The field \<^verbatim>\<open>id\<close> of
  both event classes is renamed because \<open>id\<close> is the identity function of HOL.
\<close>

record NetologyEvent =
  netology_id :: pyvalue
  title :: string
  starts_at :: "datetime option"
  ends_at :: "datetime option"
  webinar_url :: "string option"

record ModeusEvent =
  modeus_id :: pyvalue
  name :: string
  start_time :: datetime
  end_time :: datetime
  description :: "string option"

record NetologyCalendar =
  webinars :: "NetologyEvent list"

record CalendarResponse =
  netology :: NetologyCalendar
  modeus :: "ModeusEvent list"

record RefreshedCalendarResponse = CalendarResponse +
  changed :: bool

section \<open>Calendar export\<close>

text \<open>
  An \<^verbatim>\<open>icalendar\<close> component is the sequence of its properties, each the name and the
  value given to \<^verbatim>\<open>add\<close>, in the order of the calls; a calendar also has its
  subcomponents, in the order of \<^verbatim>\<open>add_component\<close>. How the library renders a value
  into a content line belongs to \<^verbatim>\<open>to_ical\<close>.
\<close>

type_synonym ics_event = "(string \<times> pyvalue) list"

record ics_calendar =
  properties :: "(string \<times> pyvalue) list"
  subcomponents :: "ics_event list"

text \<open>
  The collaborators of the export: the timezone database behind \<^verbatim>\<open>pytz.timezone\<close>
  (\<open>None\<close> is \<^verbatim>\<open>UnknownTimeZoneError\<close>), the wall clock (\<open>datetime_now k\<close> is its
  \<open>k\<close>-th reading during one export) and the byte rendering of a finished calendar.
\<close>

record export_env =
  pytz_timezone :: "string \<Rightarrow> tzinfo option"
  datetime_now :: "nat \<Rightarrow> int"
  to_ical :: "ics_calendar \<Rightarrow> string"

definition event_add :: "string \<Rightarrow> pyvalue \<Rightarrow> ics_event \<Rightarrow> ics_event" where
  "event_add key v event = event @ [(key, v)]"

definition add_component :: "ics_event \<Rightarrow> ics_calendar \<Rightarrow> ics_calendar" where
  "add_component event cal = cal\<lparr>subcomponents := subcomponents cal @ [event]\<rparr>"

definition py_optional :: "string option \<Rightarrow> pyvalue" where
  "py_optional v = (case v of None \<Rightarrow> PyNone | Some s \<Rightarrow> PyStr s)"

definition astimezone :: "datetime \<Rightarrow> tzinfo \<Rightarrow> datetime" where
  "astimezone dt tz = dt\<lparr>tzinfo := tz\<rparr>"

text \<open>Truth value of an \<^verbatim>\<open>Optional[str]\<close>: \<^verbatim>\<open>None\<close> and the empty string are false.\<close>

definition truthy :: "string option \<Rightarrow> bool" where
  "truthy v = (case v of None \<Rightarrow> False | Some s \<Rightarrow> s \<noteq> [])"

text \<open>
  \<^verbatim>\<open>create_ics_event\<close>. The argument \<open>now\<close> is the reading of the clock taken by
  \<^verbatim>\<open>datetime.datetime.now(tz=timezone)\<close>. The location is added without a test,
  the description under \<^verbatim>\<open>if description\<close>.
\<close>

definition create_ics_event ::
  "int \<Rightarrow> string \<Rightarrow> datetime \<Rightarrow> datetime \<Rightarrow> pyvalue \<Rightarrow> tzinfo \<Rightarrow> string option \<Rightarrow> string option
     \<Rightarrow> ics_event" where
  "create_ics_event now title_arg starts ends lesson_id timezone description_arg webinar_url_arg =
     (let event = [];
          dt_now = \<lparr>timestamp = now, tzinfo = timezone\<rparr>;
          event = event_add ''summary'' (PyStr title_arg) event;
          event = event_add ''location'' (py_optional webinar_url_arg) event;
          event = event_add ''dtstart'' (PyDatetime (astimezone starts timezone)) event;
          event = event_add ''dtend'' (PyDatetime (astimezone ends timezone)) event;
          event = event_add ''dtstamp'' (PyDatetime dt_now) event;
          event = event_add ''uid'' lesson_id event;
          event = (if truthy description_arg
                   then event_add ''description'' (py_optional description_arg) event
                   else event)
      in event)"

text \<open>
  The first loop of \<^verbatim>\<open>export_to_ics\<close>, over \<^verbatim>\<open>calendar.netology.webinars\<close>. A
  \<^verbatim>\<open>datetime\<close> is never false, so the test \<^verbatim>\<open>not starts_at or not ends_at\<close> holds
  exactly when one of them is \<^verbatim>\<open>None\<close>.
\<close>

fun netology_loop :: "export_env \<Rightarrow> tzinfo \<Rightarrow> NetologyEvent list \<Rightarrow> ics_calendar \<Rightarrow> ics_calendar" where
  "netology_loop env tz [] cal = cal"
| "netology_loop env tz (netology_lesson # rest) cal =
     (case (starts_at netology_lesson, ends_at netology_lesson) of
        (Some s, Some e) \<Rightarrow>
          netology_loop env tz rest
            (add_component
               (create_ics_event (datetime_now env (length (subcomponents cal)))
                  (''Netology: '' @ title netology_lesson) s e (netology_id netology_lesson) tz
                  None (webinar_url netology_lesson))
               cal)
      | _ \<Rightarrow> netology_loop env tz rest cal)"

text \<open>The second loop, over \<^verbatim>\<open>calendar.modeus\<close>.\<close>

fun modeus_loop :: "export_env \<Rightarrow> tzinfo \<Rightarrow> ModeusEvent list \<Rightarrow> ics_calendar \<Rightarrow> ics_calendar" where
  "modeus_loop env tz [] cal = cal"
| "modeus_loop env tz (modeus_lesson # rest) cal =
     modeus_loop env tz rest
       (add_component
          (create_ics_event (datetime_now env (length (subcomponents cal)))
             (''Modeus: '' @ name modeus_lesson) (start_time modeus_lesson) (end_time modeus_lesson)
             (modeus_id modeus_lesson) tz (description modeus_lesson) None)
          cal)"

text \<open>The calendar object that \<^verbatim>\<open>export_to_ics\<close> builds once the timezone is known.\<close>

definition ics_document :: "export_env \<Rightarrow> CalendarResponse \<Rightarrow> tzinfo \<Rightarrow> ics_calendar" where
  "ics_document env calendar tz =
     (let ics_calendar = \<lparr>properties = [(''version'', PyStr ''2.0''),
                                        (''prodid'', PyStr ''yet_another_calendar'')],
                          subcomponents = []\<rparr>;
          ics_calendar = netology_loop env tz (webinars (netology calendar)) ics_calendar;
          ics_calendar = modeus_loop env tz (modeus calendar) ics_calendar
      in ics_calendar)"

text \<open>
  \<^verbatim>\<open>export_to_ics\<close> is a generator. Its run is the list of the chunks it yields and
  the exception that ends it, if any.
\<close>

definition export_to_ics :: "export_env \<Rightarrow> CalendarResponse \<Rightarrow> string \<Rightarrow> string list \<times> exn option" where
  "export_to_ics env calendar timezone =
     (case pytz_timezone env timezone of
        None \<Rightarrow> ([], Some (HTTPException 400 ''Wrong timezone''))
      | Some tz \<Rightarrow> ([to_ical env (ics_document env calendar tz)], None))"

text \<open>The value that an entry holds for a property name, if it has the property.\<close>

definition property :: "string \<Rightarrow> ics_event \<Rightarrow> pyvalue option" where
  "property key event = map_of event key"

section \<open>Aggregation, cache and refresh\<close>

text \<open>
  The four request values. The body of the Modeus query and the Netology cookies are
  opaque here; the upstream views interpret them.
\<close>

datatype ModeusEventsBody = ModeusEventsBody string

datatype NetologyCookies = NetologyCookies string

type_synonym call_args = "ModeusEventsBody \<times> string \<times> int \<times> NetologyCookies"

record settings =
  redis_prefix :: string
  redis_events_time_live :: nat

text \<open>
  The collaborators of the cache paths. Every interaction with the outside (one join of
  the two upstream fetches, one call of the cache backend) happens at a tick of the
  world's counter, and the environment says what it answers at that tick:
  \<^item> \<open>netology_get_calendar\<close> and \<open>modeus_get_calendar\<close> are the two upstream views;
  \<^item> \<open>backend_fault\<close> is the exception a call of the cache backend raises, if any;
  \<^item> \<open>get_hash\<close> is the method \<^verbatim>\<open>CalendarResponse.get_hash\<close>;
  \<^item> \<open>coder_encode\<close> and \<open>coder_decode\<close> are the coder of \<^verbatim>\<open>FastAPICache\<close>, the second
    followed by the validation of the decoded value as a \<^verbatim>\<open>CalendarResponse\<close>;
  \<^item> \<open>cache_prefix\<close> is \<^verbatim>\<open>FastAPICache.get_prefix()\<close>;
  \<^item> \<open>args_digest f args\<close> is the MD5 digest that \<^verbatim>\<open>default_key_builder\<close> takes of the
    module and name of the function \<open>f\<close>, the positional arguments and the (empty)
    keyword arguments.
\<close>

record cache_env =
  netology_get_calendar :: "nat \<Rightarrow> ModeusEventsBody \<Rightarrow> int \<Rightarrow> NetologyCookies \<Rightarrow> exn + NetologyCalendar"
  modeus_get_calendar :: "nat \<Rightarrow> ModeusEventsBody \<Rightarrow> string \<Rightarrow> exn + ModeusEvent list"
  backend_fault :: "nat \<Rightarrow> exn option"
  get_hash :: "CalendarResponse \<Rightarrow> string"
  coder_encode :: "CalendarResponse \<Rightarrow> exn + string"
  coder_decode :: "string \<Rightarrow> exn + CalendarResponse"
  cache_prefix :: string
  args_digest :: "string \<Rightarrow> call_args \<Rightarrow> string"
  settings :: settings

text \<open>
  The state outside the process: the content of the cache backend (under each key the
  stored value and the expiry it was stored with) and the counter of interactions.
  Expiry itself, the passing of time, is not part of the state.
\<close>

record world =
  backend :: "string \<rightharpoonup> string \<times> nat"
  tick :: nat

definition backend_get :: "cache_env \<Rightarrow> world \<Rightarrow> string \<Rightarrow> (exn + string option) \<times> world" where
  "backend_get env w key =
     (case backend_fault env (tick w) of
        Some e \<Rightarrow> (Inl e, w\<lparr>tick := tick w + 1\<rparr>)
      | None \<Rightarrow> (Inr (map_option fst (backend w key)), w\<lparr>tick := tick w + 1\<rparr>))"

definition backend_set :: "cache_env \<Rightarrow> world \<Rightarrow> string \<Rightarrow> string \<Rightarrow> nat \<Rightarrow> (exn + unit) \<times> world" where
  "backend_set env w key v expire =
     (case backend_fault env (tick w) of
        Some e \<Rightarrow> (Inl e, w\<lparr>tick := tick w + 1\<rparr>)
      | None \<Rightarrow> (Inr (), w\<lparr>backend := (backend w)(key \<mapsto> (v, expire)), tick := tick w + 1\<rparr>))"

text \<open>
  \<^verbatim>\<open>default_key_builder(func, namespace, args=..., kwargs={})\<close>: the namespace, a colon
  and the digest.
\<close>

definition default_key_builder :: "cache_env \<Rightarrow> string \<Rightarrow> string \<Rightarrow> call_args \<Rightarrow> string" where
  "default_key_builder env func namespace args = namespace @ '':'' @ args_digest env func args"

text \<open>
  \<^verbatim>\<open>get_calendar\<close>: both upstream views run as tasks of one \<^verbatim>\<open>TaskGroup\<close>. Leaving the
  group raises an \<^verbatim>\<open>ExceptionGroup\<close> as soon as a task has failed; the response is
  built only from two results. The views return validated models, so validating the
  pair is building the record.
\<close>

definition get_calendar ::
  "cache_env \<Rightarrow> world \<Rightarrow> ModeusEventsBody \<Rightarrow> string \<Rightarrow> int \<Rightarrow> NetologyCookies
     \<Rightarrow> (exn + CalendarResponse) \<times> world" where
  "get_calendar env w body jwt_token calendar_id cookies =
     (let netology_response = netology_get_calendar env (tick w) body calendar_id cookies;
          modeus_response = modeus_get_calendar env (tick w) body jwt_token;
          w' = w\<lparr>tick := tick w + 1\<rparr>
      in case (netology_response, modeus_response) of
           (Inr n, Inr m) \<Rightarrow> (Inr \<lparr>netology = n, modeus = m\<rparr>, w')
         | _ \<Rightarrow> (Inl (ExceptionGroup
                        ((case netology_response of Inl e \<Rightarrow> [e] | Inr _ \<Rightarrow> []) @
                         (case modeus_response of Inl e \<Rightarrow> [e] | Inr _ \<Rightarrow> []))), w'))"

text \<open>
  \<^verbatim>\<open>get_cached_calendar\<close> is \<^verbatim>\<open>get_calendar\<close> under the decorator \<^verbatim>\<open>@cache\<close> of
  \<^verbatim>\<open>fastapi_cache\<close>, a cache-aside wrapper: it builds the key with the key builder
  under the namespace \<^verbatim>\<open>f"{prefix}:{namespace}"\<close> (the decorator's own namespace is
  empty), reads the backend, takes a failed read for a miss, and on a miss calls the
  function, stores the encoded result (a failed store is logged and ignored) and
  returns the result; on a hit it returns the decoded value.
\<close>

definition get_cached_calendar ::
  "cache_env \<Rightarrow> world \<Rightarrow> ModeusEventsBody \<Rightarrow> string \<Rightarrow> int \<Rightarrow> NetologyCookies
     \<Rightarrow> (exn + CalendarResponse) \<times> world" where
  "get_cached_calendar env w body jwt_token calendar_id cookies =
     (let cache_key = default_key_builder env ''get_cached_calendar''
                        (cache_prefix env @ '':'' @ []) (body, jwt_token, calendar_id, cookies);
          (got, w1) = backend_get env w cache_key;
          cached = (case got of Inl _ \<Rightarrow> None | Inr c \<Rightarrow> c)
      in case cached of
           None \<Rightarrow>
             (case get_calendar env w1 body jwt_token calendar_id cookies of
                (Inl e, w2) \<Rightarrow> (Inl e, w2)
              | (Inr result, w2) \<Rightarrow>
                  (case coder_encode env result of
                     Inl e \<Rightarrow> (Inl e, w2)
                   | Inr to_cache \<Rightarrow>
                       (let (_, w3) = backend_set env w2 cache_key to_cache
                                        (redis_events_time_live (settings env))
                        in (Inr result, w3))))
         | Some c \<Rightarrow> (coder_decode env c, w1))"

text \<open>
  \<^verbatim>\<open>refresh_events\<close>. Everything between \<^verbatim>\<open>try\<close> and \<^verbatim>\<open>except Exception\<close> (the key,
  the encoding, the write) fails into \<^verbatim>\<open>HTTPException(500)\<close>; an exception of the two
  reads before it propagates as it is.
\<close>

definition refresh_events ::
  "cache_env \<Rightarrow> world \<Rightarrow> ModeusEventsBody \<Rightarrow> string \<Rightarrow> int \<Rightarrow> NetologyCookies
     \<Rightarrow> (exn + RefreshedCalendarResponse) \<times> world" where
  "refresh_events env w body jwt_token calendar_id cookies =
     (case get_cached_calendar env w body jwt_token calendar_id cookies of
        (Inl e, w1) \<Rightarrow> (Inl e, w1)
      | (Inr cached_calendar, w1) \<Rightarrow>
          (case get_calendar env w1 body jwt_token calendar_id cookies of
             (Inl e, w2) \<Rightarrow> (Inl e, w2)
           | (Inr calendar, w2) \<Rightarrow>
               (let changed = (get_hash env cached_calendar \<noteq> get_hash env calendar);
                    cache_key = default_key_builder env ''get_cached_calendar'' []
                                  (body, jwt_token, calendar_id, cookies)
                in case coder_encode env calendar of
                     Inl e \<Rightarrow> (Inl (HTTPException 500 ''Can't refresh redis''), w2)
                   | Inr v \<Rightarrow>
                       (case backend_set env w2 (redis_prefix (settings env) @ '':'' @ cache_key) v
                               (redis_events_time_live (settings env)) of
                          (Inl e, w3) \<Rightarrow> (Inl (HTTPException 500 ''Can't refresh redis''), w3)
                        | (Inr _, w3) \<Rightarrow>
                            (Inr \<lparr>netology = netology calendar, modeus = modeus calendar,
                                  changed = changed\<rparr>, w3)))))"

section \<open>Observations and examples\<close>



definition example_calendar :: CalendarResponse where
  "example_calendar =
     \<lparr>netology = \<lparr>webinars = [\<lparr>netology_id = PyInt 1, title = ''Math'',
                                starts_at = Some \<lparr>timestamp = 1704103200, tzinfo = TzInfo ''UTC''\<rparr>,
                                ends_at = Some \<lparr>timestamp = 1704106800, tzinfo = TzInfo ''UTC''\<rparr>,
                                webinar_url = None\<rparr>]\<rparr>,
      modeus = [\<lparr>modeus_id = PyInt 2, name = ''Physics'',
                 start_time = \<lparr>timestamp = 1704110400, tzinfo = TzInfo ''UTC''\<rparr>,
                 end_time = \<lparr>timestamp = 1704114000, tzinfo = TzInfo ''UTC''\<rparr>,
                 description = None\<rparr>]\<rparr>"

definition example_export_env :: export_env where
  "example_export_env =
     \<lparr>pytz_timezone = (\<lambda>z. if z = ''UTC'' \<or> z = ''Europe/Moscow'' then Some (TzInfo z) else None),
      datetime_now = (\<lambda>k. 1730000000 + int k),
      to_ical = (\<lambda>cal. concat (map (\<lambda>e. ''BEGIN:VEVENT;'') (subcomponents cal)))\<rparr>"


definition example_cache_env :: cache_env where
  "example_cache_env =
     \<lparr>netology_get_calendar = (\<lambda>t body calendar_id cookies.
         if t < 3 then Inr \<lparr>webinars = []\<rparr>
         else Inr \<lparr>webinars = [\<lparr>netology_id = PyInt 1, title = ''Math'', starts_at = None,
                                 ends_at = None, webinar_url = None\<rparr>]\<rparr>),
      modeus_get_calendar = (\<lambda>t body jwt_token. Inr []),
      backend_fault = (\<lambda>t. None),
      get_hash = (\<lambda>c. concat (map title (webinars (netology c))) @ ''|'' @ concat (map name (modeus c))),
      coder_encode = (\<lambda>c. Inr (concat (map title (webinars (netology c))) @ ''|'' @ concat (map name (modeus c)))),
      coder_decode = (\<lambda>s. if s = ''|'' then Inr \<lparr>netology = \<lparr>webinars = []\<rparr>, modeus = []\<rparr>
                           else if s = ''Math|''
                           then Inr \<lparr>netology = \<lparr>webinars = [\<lparr>netology_id = PyInt 1, title = ''Math'',
                                      starts_at = None, ends_at = None, webinar_url = None\<rparr>]\<rparr>, modeus = []\<rparr>
                           else Inl (Exception ''ValidationError'')),
      cache_prefix = ''yac'',
      args_digest = (\<lambda>f (body, jwt_token, calendar_id, cookies). f @ ''/'' @ jwt_token),
      settings = \<lparr>redis_prefix = ''yac'', redis_events_time_live = 3600\<rparr>\<rparr>"


definition cached_world :: world where
  "cached_world = \<lparr>backend = [''yac::get_cached_calendar/jwt'' \<mapsto> (''|'', 3600)], tick = 3\<rparr>"

definition faulty_cache_env :: cache_env where
  "faulty_cache_env =
     example_cache_env\<lparr>backend_fault := (\<lambda>t. if t = 5 then Some (Exception ''ConnectionError'') else None)\<rparr>"

definition failing_cache_env :: cache_env where
  "failing_cache_env =
     example_cache_env\<lparr>modeus_get_calendar := (\<lambda>t body jwt_token. Inl (HTTPException 401 ''Unauthorized''))\<rparr>"

definition math_snapshot :: CalendarResponse where
  "math_snapshot =
     \<lparr>netology = \<lparr>webinars = [\<lparr>netology_id = PyInt 1, title = ''Math'', starts_at = None,
                                ends_at = None, webinar_url = None\<rparr>]\<rparr>,
      modeus = []\<rparr>"

section \<open>Properties of the export\<close>


lemma location_create:
  "property ''location'' (create_ics_event now t s e i tz d u) = Some (py_optional u)"
  by (simp add: property_def create_ics_event_def event_add_def Let_def)






text \<open>
  Claim C6. For every snapshot and every timezone name that the timezone database does
  not know, the export ends with \<^verbatim>\<open>HTTPException(400, "Wrong timezone")\<close> and has
  yielded nothing; for a name the database knows the export raises nothing and yields
  its one document.
\<close>

theorem export_to_ics_timezone:
  "(pytz_timezone env timezone = None \<longrightarrow>
      export_to_ics env calendar timezone = ([], Some (HTTPException 400 ''Wrong timezone''))) \<and>
   (pytz_timezone env timezone \<noteq> None \<longrightarrow>
      snd (export_to_ics env calendar timezone) = None \<and>
      length (fst (export_to_ics env calendar timezone)) = 1)"
  by (auto simp: export_to_ics_def split: option.splits)

theorem export_to_ics_timezone_witness:
  "pytz_timezone example_export_env ''Not/AZone'' = None \<and>
   export_to_ics example_export_env example_calendar ''Not/AZone'' =
     ([], Some (HTTPException 400 ''Wrong timezone'')) \<and>
   pytz_timezone example_export_env ''UTC'' \<noteq> None \<and>
   snd (export_to_ics example_export_env example_calendar ''UTC'') = None \<and>
   length (fst (export_to_ics example_export_env example_calendar ''UTC'')) = 1"
proof -
  have bad: "pytz_timezone example_export_env ''Not/AZone'' = None"
    by (simp add: example_export_env_def)
  have good: "pytz_timezone example_export_env ''UTC'' \<noteq> None"
    by (simp add: example_export_env_def)
  show ?thesis
    using bad good
      export_to_ics_timezone [of example_export_env "''Not/AZone''" example_calendar]
      export_to_ics_timezone [of example_export_env "''UTC''" example_calendar]
    by blast
qed



text \<open>
  Claim C9. For the snapshot with the Netology event 1 "Math" (10:00 to 11:00 UTC on
  2024-01-01) and the Modeus event 2 "Physics" (12:00 to 13:00 UTC), the export with
  timezone \<^verbatim>\<open>"UTC"\<close> yields one document with exactly two entries, whose summaries are
  "Netology: Math" and "Modeus: Physics".
\<close>

theorem export_concrete_scenario:
  assumes "pytz_timezone env ''UTC'' = Some tz"
  shows "export_to_ics env example_calendar ''UTC'' =
           ([to_ical env (ics_document env example_calendar tz)], None) \<and>
         length (subcomponents (ics_document env example_calendar tz)) = 2 \<and>
         map (property ''summary'') (subcomponents (ics_document env example_calendar tz)) =
           [Some (PyStr ''Netology: Math''), Some (PyStr ''Modeus: Physics'')]"
  using assms
  by (simp add: export_to_ics_def ics_document_def example_calendar_def Let_def add_component_def
      create_ics_event_def event_add_def property_def)

theorem export_concrete_scenario_witness:
  "pytz_timezone example_export_env ''UTC'' = Some (TzInfo ''UTC'') \<and>
   export_to_ics example_export_env example_calendar ''UTC'' =
     ([''BEGIN:VEVENT;BEGIN:VEVENT;''], None) \<and>
   map (property ''summary'') (subcomponents (ics_document example_export_env example_calendar (TzInfo ''UTC''))) =
     [Some (PyStr ''Netology: Math''), Some (PyStr ''Modeus: Physics'')]"
proof -
  have h: "pytz_timezone example_export_env ''UTC'' = Some (TzInfo ''UTC'')"
    by (simp add: example_export_env_def)
  have "to_ical example_export_env (ics_document example_export_env example_calendar (TzInfo ''UTC'')) =
          ''BEGIN:VEVENT;BEGIN:VEVENT;''"
    using export_concrete_scenario [OF h] 
    by (simp add: example_export_env_def ics_document_def example_calendar_def Let_def add_component_def)
  then show ?thesis
    using h export_concrete_scenario [OF h] by simp
qed



text \<open>
  Claim C8. An entry is to carry a location only when the event has a webinar URL. The
  code adds the property \<^verbatim>\<open>location\<close> to every entry: in the snapshot of the events
  "Math" and "Physics", where neither event has a webinar URL, both entries carry a
  location whose value is \<^verbatim>\<open>None\<close>.
\<close>

theorem create_ics_event_location_without_url:
  "map (property ''location'')
     (subcomponents (ics_document example_export_env example_calendar (TzInfo ''UTC''))) =
   [Some PyNone, Some PyNone]"
  by (simp add: ics_document_def example_calendar_def Let_def add_component_def
      create_ics_event_def event_add_def property_def py_optional_def)

section \<open>Properties of the aggregation and of the refresh\<close>

lemmas model_defs = refresh_events_def get_cached_calendar_def get_calendar_def backend_get_def
  backend_set_def default_key_builder_def

text \<open>
  Claim C2. Whenever the Netology fetch or the Modeus fetch fails, \<^verbatim>\<open>get_calendar\<close>
  fails as a whole, with a non-empty \<^verbatim>\<open>ExceptionGroup\<close>: it returns no snapshot, so
  none that holds only the events of the source that answered.
\<close>

theorem get_calendar_all_or_nothing:
  assumes "(\<exists>e. netology_get_calendar env (tick w) body calendar_id cookies = Inl e) \<or>
           (\<exists>e. modeus_get_calendar env (tick w) body jwt_token = Inl e)"
  shows "\<exists>es. es \<noteq> [] \<and> fst (get_calendar env w body jwt_token calendar_id cookies) = Inl (ExceptionGroup es)"
  using assms by (auto simp: get_calendar_def Let_def split: sum.splits)

theorem get_calendar_all_or_nothing_witness:
  "modeus_get_calendar failing_cache_env (tick cached_world) (ModeusEventsBody ''q'') ''jwt'' =
     Inl (HTTPException 401 ''Unauthorized'') \<and>
   fst (get_calendar failing_cache_env cached_world (ModeusEventsBody ''q'') ''jwt'' 5 (NetologyCookies ''c'')) =
     Inl (ExceptionGroup [HTTPException 401 ''Unauthorized''])"
proof -
  have h: "modeus_get_calendar failing_cache_env (tick cached_world) (ModeusEventsBody ''q'') ''jwt'' =
     Inl (HTTPException 401 ''Unauthorized'')"
    by (simp add: failing_cache_env_def)
  then have "(\<exists>e. netology_get_calendar failing_cache_env (tick cached_world) (ModeusEventsBody ''q'') 5
                 (NetologyCookies ''c'') = Inl e) \<or>
        (\<exists>e. modeus_get_calendar failing_cache_env (tick cached_world) (ModeusEventsBody ''q'') ''jwt'' = Inl e)"
    by blast
  from get_calendar_all_or_nothing [OF this] obtain es where
    "fst (get_calendar failing_cache_env cached_world (ModeusEventsBody ''q'') ''jwt'' 5 (NetologyCookies ''c'')) =
       Inl (ExceptionGroup es)"
    by blast
  moreover have "fst (get_calendar failing_cache_env cached_world (ModeusEventsBody ''q'') ''jwt'' 5 (NetologyCookies ''c'')) =
     Inl (ExceptionGroup [HTTPException 401 ''Unauthorized''])"
    by (simp add: get_calendar_def failing_cache_env_def example_cache_env_def cached_world_def Let_def)
  ultimately show ?thesis using h by simp
qed







lemma refresh_events_Inr:
  assumes "fst (refresh_events env w body jwt_token calendar_id cookies) = Inr r"
  obtains cached w1 fresh w2 v where
    "get_cached_calendar env w body jwt_token calendar_id cookies = (Inr cached, w1)"
    "get_calendar env w1 body jwt_token calendar_id cookies = (Inr fresh, w2)"
    "coder_encode env fresh = Inr v"
    "backend_fault env (tick w2) = None"
    "snd (refresh_events env w body jwt_token calendar_id cookies) =
       w2\<lparr>backend := (backend w2)
             (redis_prefix (settings env) @ '':'' @
                default_key_builder env ''get_cached_calendar'' [] (body, jwt_token, calendar_id, cookies)
              \<mapsto> (v, redis_events_time_live (settings env))),
           tick := tick w2 + 1\<rparr>"
    "r = \<lparr>netology = netology fresh, modeus = modeus fresh,
          changed = (get_hash env cached \<noteq> get_hash env fresh)\<rparr>"
proof -
  obtain rc w1 where c: "get_cached_calendar env w body jwt_token calendar_id cookies = (rc, w1)"
    by (cases "get_cached_calendar env w body jwt_token calendar_id cookies")
  obtain cached where rc: "rc = Inr cached"
    using assms c by (cases rc) (simp_all add: refresh_events_def)
  obtain rf w2 where f: "get_calendar env w1 body jwt_token calendar_id cookies = (rf, w2)"
    by (cases "get_calendar env w1 body jwt_token calendar_id cookies")
  obtain fresh where rf: "rf = Inr fresh"
    using assms c rc f by (cases rf) (simp_all add: refresh_events_def)
  obtain v where v: "coder_encode env fresh = Inr v"
    using assms c rc f rf by (cases "coder_encode env fresh") (simp_all add: refresh_events_def)
  have nf: "backend_fault env (tick w2) = None"
    using assms c rc f rf v
    by (cases "backend_fault env (tick w2)") (simp_all add: refresh_events_def backend_set_def)
  show thesis
    using assms c rc f rf v nf
    by (intro that [of cached w1 fresh w2 v]) (auto simp: refresh_events_def backend_set_def)
qed

text \<open>
  Claim C3. For every successful refresh, the returned snapshot is the freshly fetched
  one and the flag \<open>changed\<close> is the inequality of two hashes: that of the snapshot
  the cached read returned and that of the freshly fetched snapshot. Equal hashes give
  \<open>False\<close>, different hashes give \<open>True\<close>.
\<close>

theorem refresh_events_changed:
  assumes "fst (refresh_events env w body jwt_token calendar_id cookies) = Inr r"
  shows "\<exists>cached fresh.
           fst (get_cached_calendar env w body jwt_token calendar_id cookies) = Inr cached \<and>
           fst (get_calendar env (snd (get_cached_calendar env w body jwt_token calendar_id cookies))
                  body jwt_token calendar_id cookies) = Inr fresh \<and>
           netology r = netology fresh \<and> modeus r = modeus fresh \<and>
           changed r = (get_hash env cached \<noteq> get_hash env fresh)"
proof -
  from refresh_events_Inr [OF assms] obtain cached w1 fresh w2 where
    "get_cached_calendar env w body jwt_token calendar_id cookies = (Inr cached, w1)"
    "get_calendar env w1 body jwt_token calendar_id cookies = (Inr fresh, w2)"
    "r = \<lparr>netology = netology fresh, modeus = modeus fresh,
          changed = (get_hash env cached \<noteq> get_hash env fresh)\<rparr>"
    by metis
  then show ?thesis by simp
qed

text \<open>
  Claim C4. Whenever the cached read and the fresh fetch succeed and the write to the
  cache then fails (the encoding of the fresh snapshot or the call of the backend
  raises), \<^verbatim>\<open>refresh_events\<close> raises \<^verbatim>\<open>HTTPException(500, "Can't refresh redis")\<close>
  and returns no snapshot.
\<close>

theorem refresh_events_write_failure:
  assumes "fst (get_cached_calendar env w body jwt_token calendar_id cookies) = Inr cached"
    and "get_calendar env (snd (get_cached_calendar env w body jwt_token calendar_id cookies))
           body jwt_token calendar_id cookies = (Inr fresh, w2)"
    and "(\<exists>e. coder_encode env fresh = Inl e) \<or> (\<exists>e. backend_fault env (tick w2) = Some e)"
  shows "fst (refresh_events env w body jwt_token calendar_id cookies) =
           Inl (HTTPException 500 ''Can't refresh redis'')"
proof -
  obtain w1 where c: "get_cached_calendar env w body jwt_token calendar_id cookies = (Inr cached, w1)"
    using assms(1) by (cases "get_cached_calendar env w body jwt_token calendar_id cookies") simp
  then have f: "get_calendar env w1 body jwt_token calendar_id cookies = (Inr fresh, w2)"
    using assms(2) by simp
  show ?thesis
    using c f assms(3)
    by (auto simp: refresh_events_def backend_set_def split: sum.splits)
qed


lemma refresh_example:
  "fst (refresh_events example_cache_env cached_world (ModeusEventsBody ''q'') ''jwt'' 5 (NetologyCookies ''c'')) =
     Inr \<lparr>netology = netology math_snapshot, modeus = modeus math_snapshot, changed = True\<rparr>"
  by (simp add: example_cache_env_def cached_world_def math_snapshot_def model_defs Let_def)

theorem refresh_events_changed_witness:
  "fst (refresh_events example_cache_env cached_world (ModeusEventsBody ''q'') ''jwt'' 5 (NetologyCookies ''c'')) =
     Inr \<lparr>netology = netology math_snapshot, modeus = modeus math_snapshot, changed = True\<rparr> \<and>
   (\<exists>cached fresh.
      fst (get_cached_calendar example_cache_env cached_world (ModeusEventsBody ''q'') ''jwt'' 5
             (NetologyCookies ''c'')) = Inr cached \<and>
      fst (get_calendar example_cache_env
             (snd (get_cached_calendar example_cache_env cached_world (ModeusEventsBody ''q'') ''jwt'' 5
                     (NetologyCookies ''c'')))
             (ModeusEventsBody ''q'') ''jwt'' 5 (NetologyCookies ''c'')) = Inr fresh \<and>
      get_hash example_cache_env cached \<noteq> get_hash example_cache_env fresh)"
  using refresh_example refresh_events_changed [OF refresh_example] by auto

theorem refresh_events_write_failure_witness:
  "fst (get_cached_calendar faulty_cache_env cached_world (ModeusEventsBody ''q'') ''jwt'' 5
          (NetologyCookies ''c'')) = Inr \<lparr>netology = \<lparr>webinars = []\<rparr>, modeus = []\<rparr> \<and>
   fst (get_calendar faulty_cache_env
          (snd (get_cached_calendar faulty_cache_env cached_world (ModeusEventsBody ''q'') ''jwt'' 5
                  (NetologyCookies ''c'')))
          (ModeusEventsBody ''q'') ''jwt'' 5 (NetologyCookies ''c'')) = Inr math_snapshot \<and>
   backend_fault faulty_cache_env 5 = Some (Exception ''ConnectionError'') \<and>
   fst (refresh_events faulty_cache_env cached_world (ModeusEventsBody ''q'') ''jwt'' 5 (NetologyCookies ''c'')) =
     Inl (HTTPException 500 ''Can't refresh redis'')"
proof -
  let ?c = "get_cached_calendar faulty_cache_env cached_world (ModeusEventsBody ''q'') ''jwt'' 5
          (NetologyCookies ''c'')"
  have c: "?c = (Inr \<lparr>netology = \<lparr>webinars = []\<rparr>, modeus = []\<rparr>, cached_world\<lparr>tick := 4\<rparr>)"
    by (simp add: faulty_cache_env_def example_cache_env_def cached_world_def get_cached_calendar_def
        backend_get_def default_key_builder_def)
  have f: "get_calendar faulty_cache_env (snd ?c) (ModeusEventsBody ''q'') ''jwt'' 5 (NetologyCookies ''c'') =
             (Inr math_snapshot, cached_world\<lparr>tick := 5\<rparr>)"
    unfolding c
    by (simp add: faulty_cache_env_def example_cache_env_def cached_world_def get_calendar_def
        math_snapshot_def Let_def)
  have b: "backend_fault faulty_cache_env 5 = Some (Exception ''ConnectionError'')"
    by (simp add: faulty_cache_env_def)
  have d: "(\<exists>e. coder_encode faulty_cache_env math_snapshot = Inl e) \<or>
           (\<exists>e. backend_fault faulty_cache_env (tick (cached_world\<lparr>tick := 5\<rparr>)) = Some e)"
    using b by simp
  have c1: "fst ?c = Inr \<lparr>netology = \<lparr>webinars = []\<rparr>, modeus = []\<rparr>"
    using c by simp
  show ?thesis
    using c1 f b refresh_events_write_failure [OF c1 f d] by simp
qed


end
